theory Spec2Isabelle
  imports Main
begin

section \<open>LocationWeather: the values the module handles\<close>

text \<open>
  The module \<^verbatim>\<open>src/LocationWeather.ts\<close> holds one class of static methods.  The
  methods are embedded below under their own names without the leading underscore, which an
  Isabelle name cannot start with.

  A value of the language at run time.  Numbers are the integral ones (a postal code);
  an array is the list of its elements, every index holding one (sparse arrays are not
  modelled); an object is the list of its own properties, each name once.
\<close>

datatype jsval =
    JUndefined
  | JNull
  | JBool bool
  | JNum int
  | JStr string
  | JArr "jsval list"
  | JObj "(string \<times> jsval) list"

text \<open>\<^verbatim>\<open>type Location = string | number\<close>\<close>

datatype location = LString string | LNumber int

text \<open>A thrown object: its constructor and its message.\<close>

datatype kind = Error | TypeError | ReferenceError

datatype err = Err kind string

fun message :: "err \<Rightarrow> string" where
  "message (Err k m) = m"

text \<open>
  \<^verbatim>\<open>interface Weather\<close>.  The fields are whatever the destructuring of the parsed
  response found under these names, \<open>JUndefined\<close> included: nothing checks them.
\<close>

record Weather =
  timezone :: jsval
  ob_time :: jsval
  city_name :: jsval
  datetime :: jsval
  weather :: jsval

text \<open>
  \<^verbatim>\<open>interface Cache { [key: string]: Weather }\<close>: an object used as a dictionary.
  Its keys are property names, that is strings; the order of the properties is not kept,
  and the properties are the object's own: no location is taken to be a name that
  \<^verbatim>\<open>Object.prototype\<close> defines.
\<close>

type_synonym Cache = "string \<rightharpoonup> Weather"

subsection \<open>A location as a string\<close>

text \<open>
  \<^verbatim>\<open>location.toString()\<close>, the template \<^verbatim>\<open>${location}\<close> and the computed
  property name \<^verbatim>\<open>[this]\<close> all turn a number into its decimal digits, with a
  minus sign before them when it is negative (an integer below \<open>10^21\<close> in magnitude is
  printed without an exponent).
\<close>

definition digit :: "nat \<Rightarrow> char" where
  "digit d = ''0123456789'' ! d"

fun dec :: "nat \<Rightarrow> string" where
  "dec n = (if n < 10 then [digit n] else dec (n div 10) @ [digit (n mod 10)])"

declare dec.simps [simp del]

definition numToString :: "int \<Rightarrow> string" where
  "numToString i = (if i < 0 then CHR ''-'' # dec (nat (- i)) else dec (nat i))"

fun toString :: "location \<Rightarrow> string" where
  "toString (LString s) = s"
| "toString (LNumber n) = numToString n"

definition isDigit :: "char \<Rightarrow> bool" where
  "isDigit c = (c \<in> set ''0123456789'')"

subsection \<open>validateLocations\<close>

fun isLocation :: "jsval \<Rightarrow> bool" where
  "isLocation (JStr s) = True"
| "isLocation (JNum n) = True"
| "isLocation v = False"

fun validateLocations :: "jsval \<Rightarrow> err + bool" where
  "validateLocations (JArr locations) =
     (if length locations = 0 then Inl (Err Error ''data set should not be empty'')
      else if length locations > 10
        then Inl (Err Error ''data set should not contain more than 10 entries'')
      else if \<not> list_all isLocation locations
        then Inl (Err TypeError ''each location should be a city(string) or zipcode(integer)'')
      else Inr True)"
| "validateLocations v =
     Inl (Err TypeError ''data set should be an array containing locations and postal codes'')"

text \<open>The elements of a validated array, at their type \<^verbatim>\<open>Location\<close>.\<close>

fun asLocation :: "jsval \<Rightarrow> location option" where
  "asLocation (JStr s) = Some (LString s)"
| "asLocation (JNum n) = Some (LNumber n)"
| "asLocation v = None"

fun elements :: "jsval \<Rightarrow> location list" where
  "elements (JArr xs) = List.map_filter asLocation xs"
| "elements v = []"

subsection \<open>The request for one location\<close>

definition dataUrl :: string where
  "dataUrl = ''https://api.weatherbit.io/v2.0/current''"

text \<open>\<^verbatim>\<open>/\d+/.test(location.toString())\<close>: some character is a decimal digit.\<close>

definition locationType :: "location \<Rightarrow> string" where
  "locationType location =
     (if list_ex isDigit (toString location) then ''postal_code'' else ''city'')"

text \<open>The static field \<^verbatim>\<open>apiKey\<close> inside a template.\<close>

fun keyText :: "string option \<Rightarrow> string" where
  "keyText None = ''undefined''"
| "keyText (Some k) = k"

definition queryParams :: "string option \<Rightarrow> location \<Rightarrow> string" where
  "queryParams key location =
     ''?'' @ locationType location @ ''='' @ toString location @ ''&key='' @ keyText key"

definition requestUrl :: "string option \<Rightarrow> location \<Rightarrow> string" where
  "requestUrl key location = dataUrl @ queryParams key location"

subsection \<open>transformWeatherData\<close>

text \<open>
  The body of a response is represented by what \<^verbatim>\<open>JSON.parse\<close> makes of it:
  \<open>None\<close> when it throws.

  \<open>getProp v k\<close> is \<^verbatim>\<open>v[k]\<close> for a value that is neither null nor undefined and a
  name \<open>k\<close> that no prototype defines, as \<^verbatim>\<open>data\<close> and the five field names
  are: only an object can hold it.
\<close>

fun getProp :: "jsval \<Rightarrow> string \<Rightarrow> jsval" where
  "getProp (JObj ps) k = (case map_of ps k of None \<Rightarrow> JUndefined | Some v \<Rightarrow> v)"
| "getProp v k = JUndefined"

text \<open>
  The array pattern \<^verbatim>\<open>[x] = v\<close>: the first value the iterator of \<open>v\<close> gives,
  undefined when it gives none; \<open>None\<close> when \<open>v\<close> is not iterable, a TypeError.
  Arrays and strings are the iterable values here.
\<close>

fun first :: "jsval \<Rightarrow> jsval option" where
  "first (JArr []) = Some JUndefined"
| "first (JArr (x # xs)) = Some x"
| "first (JStr []) = Some JUndefined"
| "first (JStr (c # cs)) = Some (JStr [c])"
| "first v = None"

text \<open>An object pattern throws a TypeError on null and undefined only.\<close>

fun nullish :: "jsval \<Rightarrow> bool" where
  "nullish JUndefined = True"
| "nullish JNull = True"
| "nullish v = False"

definition noWeatherData :: "location \<Rightarrow> err" where
  "noWeatherData this = Err Error (''no weather data for '' @ toString this)"

definition transformWeatherData :: "location \<Rightarrow> jsval option \<Rightarrow> err + Cache" where
  "transformWeatherData this apiData =
     (case apiData of
        None \<Rightarrow> Inl (noWeatherData this)
      | Some weatherData \<Rightarrow>
          if nullish weatherData then Inl (noWeatherData this)
          else (case first (getProp weatherData ''data'') of
                  None \<Rightarrow> Inl (noWeatherData this)
                | Some d \<Rightarrow>
                    if nullish d then Inl (noWeatherData this)
                    else Inr [toString this \<mapsto>
                           \<lparr>timezone = getProp d ''timezone'', ob_time = getProp d ''ob_time'',
                            city_name = getProp d ''city_name'', datetime = getProp d ''datetime'',
                            weather = getProp d ''weather''\<rparr>]))"

subsection \<open>The transport and the promises\<close>

text \<open>
  What the HTTP client does with one GET, seen from the module: either it hands a body to
  \<^verbatim>\<open>transformResponse\<close> and resolves with what that returns (or rejects with what
  it throws), or it rejects by itself with a message of its own (no response, a refused
  status).
\<close>

datatype response = Body "jsval option" | Failed string

text \<open>
  A settled promise: the tick of the event loop at which it settles, and its outcome.
\<close>

type_synonym 'a promise = "nat \<times> (err + 'a)"

text \<open>
  \<^verbatim>\<open>axios.all\<close> is \<^verbatim>\<open>Promise.all\<close>: it rejects with the reason of the promise
  that rejects first, and otherwise resolves with all the values in the order of the
  promises.  Of two rejections at the same tick the earlier promise of the list counts.
\<close>

fun firstRejection :: "'a promise list \<Rightarrow> (nat \<times> err) option" where
  "firstRejection [] = None"
| "firstRejection ((t, Inr v) # ps) = firstRejection ps"
| "firstRejection ((t, Inl e) # ps) =
     (case firstRejection ps of
        None \<Rightarrow> Some (t, e)
      | Some (t', e') \<Rightarrow> if t' < t then Some (t', e') else Some (t, e))"

fun fulfilled :: "'a promise list \<Rightarrow> 'a list" where
  "fulfilled [] = []"
| "fulfilled ((t, Inr v) # ps) = v # fulfilled ps"
| "fulfilled ((t, Inl e) # ps) = fulfilled ps"

definition axios_all :: "'a promise list \<Rightarrow> err + 'a list" where
  "axios_all ps = (case firstRejection ps of None \<Rightarrow> Inr (fulfilled ps) | Some (t, e) \<Rightarrow> Inl e)"

subsection \<open>The state of the class and what surrounds one call\<close>

text \<open>
  \<open>apiKey\<close> and \<open>cache\<close> are the static fields \<^verbatim>\<open>apiKey\<close> and \<^verbatim>\<open>_cache\<close>
  (\<open>None\<close>: undefined).  \<open>dataJson\<close> is \<^verbatim>\<open>data.json\<close>: the object whose
  serialisation it holds, \<open>None\<close> when there is no file.  \<open>sent\<close> lists the URLs
  requested so far.
\<close>

record world =
  apiKey :: "string option"
  cache :: "Cache option"
  dataJson :: "Cache option"
  sent :: "string list"

text \<open>
  What one call meets: the clock (\<^verbatim>\<open>new Date().getTime()\<close>, in milliseconds), the
  time value \<^verbatim>\<open>new Date(v).getTime()\<close> of a value (\<open>None\<close>: NaN, an invalid
  date), the answer of the network to a URL with the tick at which it arrives, and the
  error that the callback of \<^verbatim>\<open>writeFile\<close> receives (\<open>None\<close>: the write succeeds).
  The clock is read as one value during a call.
\<close>

record env =
  now :: int
  date :: "jsval \<Rightarrow> int option"
  net :: "string \<Rightarrow> nat \<times> response"
  disk :: "string option"

definition request :: "env \<Rightarrow> string option \<Rightarrow> location \<Rightarrow> Cache promise" where
  "request e key location =
     (case net e (requestUrl key location) of
        (t, Failed m) \<Rightarrow> (t, Inl (Err Error m))
      | (t, Body apiData) \<Rightarrow> (t, transformWeatherData location apiData))"

text \<open>\<^verbatim>\<open>Object.assign({}, ...weatherData)\<close>: a later object overwrites an earlier one.\<close>

definition normalizeApiData :: "Cache list \<Rightarrow> Cache" where
  "normalizeApiData weatherData = foldl (++) Map.empty weatherData"

subsection \<open>Expiry of a cached location\<close>

text \<open>
  \<^verbatim>\<open>time.setHours(time.getHours() + 1)\<close>: one hour later, in a zone whose offset does
  not change within that hour; the result stays NaN on an invalid date and becomes NaN
  beyond the range of time values.
\<close>

definition setHoursPlus1 :: "int option \<Rightarrow> int option" where
  "setHoursPlus1 time =
     (case time of
        None \<Rightarrow> None
      | Some ms \<Rightarrow>
          if \<bar>ms + 3600000\<bar> \<le> 8640000000000000 then Some (ms + 3600000) else None)"

text \<open>
  The \<^verbatim>\<open>try\<close> block throws, and the \<^verbatim>\<open>catch\<close> returns true, when
  \<^verbatim>\<open>_cache\<close> is undefined and when it has no property for the location.  A
  comparison with NaN is false.
\<close>

definition locationCacheExpired :: "env \<Rightarrow> Cache option \<Rightarrow> location \<Rightarrow> bool" where
  "locationCacheExpired e c location =
     (case c of
        None \<Rightarrow> True
      | Some m \<Rightarrow>
          (case m (toString location) of
             None \<Rightarrow> True
           | Some r \<Rightarrow>
               (case setHoursPlus1 (date e (ob_time r)) of
                  None \<Rightarrow> False
                | Some time \<Rightarrow> time > now e)))"

definition filterCachedLocations ::
  "env \<Rightarrow> Cache option \<Rightarrow> bool \<Rightarrow> location list \<Rightarrow> location list" where
  "filterCachedLocations e c flag locations =
     filter (\<lambda>location. locationCacheExpired e c location = flag) locations"

subsection \<open>Writing the cache\<close>

text \<open>
  \<^verbatim>\<open>_caccheExists\<close>: the promise resolves to true when \<^verbatim>\<open>stat\<close> finds the file,
  and its rejection is caught and replaced by true when it does not.
\<close>

definition caccheExists :: "Cache option \<Rightarrow> bool" where
  "caccheExists f = (case f of None \<Rightarrow> True | Some content \<Rightarrow> True)"

text \<open>
  \<^verbatim>\<open>writeFile(file, content, { flag }, callback)\<close>: with the flag undefined the file is
  created or truncated and written whole; with \<^verbatim>\<open>'wx'\<close> the write fails on an
  existing file.  A write that fails leaves the file as it was.
\<close>

datatype flag = Wx

definition writeFile ::
  "string option \<Rightarrow> Cache option \<Rightarrow> Cache \<Rightarrow> flag option \<Rightarrow> err + Cache option" where
  "writeFile failure f content flg =
     (case failure of
        Some m \<Rightarrow> Inl (Err Error m)
      | None \<Rightarrow>
          if flg = Some Wx \<and> f \<noteq> None then Inl (Err Error ''EEXIST: file already exists'')
          else Inr (Some content))"

text \<open>\<^verbatim>\<open>{ ...LocationWeather._cache }\<close>: spreading undefined gives no property.\<close>

fun spread :: "Cache option \<Rightarrow> Cache" where
  "spread None = Map.empty"
| "spread (Some m) = m"

definition writeToCache :: "env \<Rightarrow> world \<Rightarrow> Cache \<Rightarrow> (err + Cache) \<times> world" where
  "writeToCache e w data =
     (let content = spread (cache w) ++ data;
          flg = (if caccheExists (dataJson w) then None else Some Wx)
      in case writeFile (disk e) (dataJson w) content flg of
           Inl error \<Rightarrow> (Inl error, w)
         | Inr f \<Rightarrow> (Inr data, w\<lparr>dataJson := f, cache := Some data\<rparr>))"

subsection \<open>The two sources of weather data\<close>

definition getWeatherByLocationsFromApi ::
  "env \<Rightarrow> world \<Rightarrow> location list \<Rightarrow> (err + Cache) \<times> world" where
  "getWeatherByLocationsFromApi e w locations =
     (let w' = w\<lparr>sent := sent w @ map (requestUrl (apiKey w)) locations\<rparr>
      in case axios_all (map (request e (apiKey w)) locations) of
           Inl error \<Rightarrow> (Inl error, w')
         | Inr weatherData \<Rightarrow> writeToCache e w' (normalizeApiData weatherData))"

text \<open>
  \<^verbatim>\<open>pick(object, paths)\<close> of lodash, for paths that are plain property names: the
  object made of the named properties that \<open>object\<close> has, and the empty object when
  \<open>object\<close> is null or undefined.
\<close>

definition pick :: "Cache option \<Rightarrow> string list \<Rightarrow> Cache" where
  "pick object paths = (case object of None \<Rightarrow> Map.empty | Some m \<Rightarrow> m |` set paths)"

definition getWeatherByLocationsFromCache :: "Cache option \<Rightarrow> location list \<Rightarrow> Cache" where
  "getWeatherByLocationsFromCache c locations = pick c (map toString locations)"

subsection \<open>getWeatherData\<close>

text \<open>\<^verbatim>\<open>!LocationWeather.apiKey\<close>: undefined and the empty string are falsy.\<close>

fun falsy :: "string option \<Rightarrow> bool" where
  "falsy None = True"
| "falsy (Some k) = (k = [])"

text \<open>\<^verbatim>\<open>catch (error) { throw new Error(error.message) }\<close>\<close>

definition rethrow :: "err \<Rightarrow> err" where
  "rethrow error = Err Error (message error)"

text \<open>
  The cache is read for \<open>fromCache\<close> after the fetch has been awaited, in the state the
  fetch left.
\<close>

definition getWeatherData :: "env \<Rightarrow> world \<Rightarrow> jsval \<Rightarrow> (err + Cache) \<times> world" where
  "getWeatherData e w locations =
     (if falsy (apiKey w)
      then (Inl (rethrow (Err ReferenceError ''please supply a valid api key'')), w)
      else
        (case validateLocations locations of
           Inl error \<Rightarrow> (Inl (rethrow error), w)
         | Inr ok \<Rightarrow>
             (let fromApi = filterCachedLocations e (cache w) True (elements locations);
                  fromCache = filterCachedLocations e (cache w) False (elements locations)
              in case (if length fromApi \<noteq> 0 then getWeatherByLocationsFromApi e w fromApi
                       else (Inr Map.empty, w)) of
                   (Inl error, w') \<Rightarrow> (Inl (rethrow error), w')
                 | (Inr apiData, w') \<Rightarrow>
                     (Inr (apiData ++ getWeatherByLocationsFromCache (cache w') fromCache),
                      w'))))"

section \<open>Example data\<close>

text \<open>
  A process that has just started, with a key configured.  Two responses of the weather
  service, for Lagos and for the postal code 10005, and the records the module keeps of
  them.  The time value of their \<^verbatim>\<open>ob_time\<close> in a process whose zone is UTC.
  A network that answers the requests for Lagos and for 10005 with these responses at
  tick 1, and every other request with a body that is not JSON: at tick 2 for
  \<^verbatim>\<open>obanikorosssss\<close>, at tick 1 otherwise.  What a call meets when the clock reads
  \<open>t\<close> and the write of the file ends as \<open>failure\<close> says.
\<close>

definition newProcess :: world where
  "newProcess = \<lparr>apiKey = Some ''k'', cache = None, dataJson = None, sent = []\<rparr>"

definition lagosBody :: jsval where
  "lagosBody = JObj [(''data'', JArr [JObj [(''city_name'', JStr ''Lagos''),
      (''timezone'', JStr ''Africa/Lagos''),
      (''weather'', JObj [(''description'', JStr ''Clear sky'')]),
      (''ob_time'', JStr ''2019-05-01 13:45''), (''datetime'', JStr ''2019-05-01:13''),
      (''temp'', JNum 30)]])]"

definition lagosRecord :: Weather where
  "lagosRecord = \<lparr>timezone = JStr ''Africa/Lagos'', ob_time = JStr ''2019-05-01 13:45'',
      city_name = JStr ''Lagos'', datetime = JStr ''2019-05-01:13'',
      weather = JObj [(''description'', JStr ''Clear sky'')]\<rparr>"

definition nyBody :: jsval where
  "nyBody = JObj [(''data'', JArr [JObj [(''city_name'', JStr ''New York City''),
      (''timezone'', JStr ''America/New_York''),
      (''weather'', JObj [(''description'', JStr ''Overcast clouds'')]),
      (''ob_time'', JStr ''2019-05-01 13:45''), (''datetime'', JStr ''2019-05-01:13'')]]),
      (''count'', JNum 1)]"

definition nyRecord :: Weather where
  "nyRecord = \<lparr>timezone = JStr ''America/New_York'', ob_time = JStr ''2019-05-01 13:45'',
      city_name = JStr ''New York City'', datetime = JStr ''2019-05-01:13'',
      weather = JObj [(''description'', JStr ''Overcast clouds'')]\<rparr>"

definition austinRecord :: Weather where
  "austinRecord = \<lparr>timezone = JStr ''America/Chicago'', ob_time = JStr ''2019-05-01 09:10'',
      city_name = JStr ''Austin'', datetime = JStr ''2019-05-01:09'',
      weather = JObj [(''description'', JStr ''Few clouds'')]\<rparr>"

definition utcDate :: "jsval \<Rightarrow> int option" where
  "utcDate v = (if v = JStr ''2019-05-01 13:45'' then Some 1556718300000 else None)"

definition exampleNet :: "string \<Rightarrow> nat \<times> response" where
  "exampleNet url =
     (if url = ''https://api.weatherbit.io/v2.0/current?city=Lagos&key=k''
        then (1, Body (Some lagosBody))
      else if url = ''https://api.weatherbit.io/v2.0/current?postal_code=10005&key=k''
        then (1, Body (Some nyBody))
      else if url = ''https://api.weatherbit.io/v2.0/current?city=obanikorosssss&key=k''
        then (2, Body None)
      else (1, Body None))"

definition exampleEnv :: "int \<Rightarrow> string option \<Rightarrow> env" where
  "exampleEnv t failure = \<lparr>now = t, date = utcDate, net = exampleNet, disk = failure\<rparr>"

section \<open>Properties\<close>

subsection \<open>Evaluating the examples\<close>

lemma exampleEnv_fields [simp]:
  "now (exampleEnv t failure) = t"
  "date (exampleEnv t failure) = utcDate"
  "net (exampleEnv t failure) = exampleNet"
  "disk (exampleEnv t failure) = failure"
  by (simp_all add: exampleEnv_def)

lemma numToString_10005: "numToString 10005 = ''10005''"
  by (simp add: numToString_def dec.simps digit_def)

lemma example_urls:
  "requestUrl (Some ''k'') (LString ''Lagos'') =
     ''https://api.weatherbit.io/v2.0/current?city=Lagos&key=k''"
  "requestUrl (Some ''k'') (LNumber 10005) =
     ''https://api.weatherbit.io/v2.0/current?postal_code=10005&key=k''"
  "requestUrl (Some ''k'') (LString ''10005'') =
     ''https://api.weatherbit.io/v2.0/current?postal_code=10005&key=k''"
  "requestUrl (Some ''k'') (LString ''obanikorosssss'') =
     ''https://api.weatherbit.io/v2.0/current?city=obanikorosssss&key=k''"
  "requestUrl (Some ''k'') (LString ''kjkkssjkjkj'') =
     ''https://api.weatherbit.io/v2.0/current?city=kjkkssjkjkj&key=k''"
  by (simp_all add: requestUrl_def dataUrl_def queryParams_def locationType_def isDigit_def
        numToString_10005)

lemma transform_lagos:
  "transformWeatherData (LString ''Lagos'') (Some lagosBody) = Inr [''Lagos'' \<mapsto> lagosRecord]"
  by (simp add: transformWeatherData_def lagosBody_def lagosRecord_def)

lemma transform_10005:
  "transformWeatherData (LNumber 10005) (Some nyBody) = Inr [''10005'' \<mapsto> nyRecord]"
  "transformWeatherData (LString ''10005'') (Some nyBody) = Inr [''10005'' \<mapsto> nyRecord]"
  by (simp_all add: transformWeatherData_def nyBody_def nyRecord_def numToString_10005)

lemma answered_requests:
  "request (exampleEnv t failure) (Some ''k'') (LString ''Lagos'') =
     (1, Inr [''Lagos'' \<mapsto> lagosRecord])"
  "request (exampleEnv t failure) (Some ''k'') (LNumber 10005) =
     (1, Inr [''10005'' \<mapsto> nyRecord])"
  "request (exampleEnv t failure) (Some ''k'') (LString ''10005'') =
     (1, Inr [''10005'' \<mapsto> nyRecord])"
  by (simp_all add: request_def example_urls exampleNet_def transform_lagos transform_10005)

lemma unanswered_requests:
  "request (exampleEnv t failure) (Some ''k'') (LString ''obanikorosssss'') =
     (2, Inl (Err Error ''no weather data for obanikorosssss''))"
  "request (exampleEnv t failure) (Some ''k'') (LString ''kjkkssjkjkj'') =
     (1, Inl (Err Error ''no weather data for kjkkssjkjkj''))"
  by (simp_all add: request_def example_urls exampleNet_def transformWeatherData_def
        noWeatherData_def)

lemmas example_requests = answered_requests unanswered_requests

lemma nothing_cached:
  "filterCachedLocations e None True locations = locations"
  "filterCachedLocations e None False locations = []"
  by (simp_all add: filterCachedLocations_def locationCacheExpired_def)

lemma first_call:
  "getWeatherData (exampleEnv t None) newProcess (JArr [JStr ''Lagos'']) =
     (Inr [''Lagos'' \<mapsto> lagosRecord],
      \<lparr>apiKey = Some ''k'', cache = Some [''Lagos'' \<mapsto> lagosRecord],
       dataJson = Some [''Lagos'' \<mapsto> lagosRecord],
       sent = [''https://api.weatherbit.io/v2.0/current?city=Lagos&key=k'']\<rparr>)"
  by (simp add: getWeatherData_def newProcess_def nothing_cached List.map_filter_def
        getWeatherByLocationsFromApi_def axios_all_def example_requests example_urls
        normalizeApiData_def writeToCache_def caccheExists_def writeFile_def
        getWeatherByLocationsFromCache_def pick_def)

subsection \<open>The kind of a location in the request\<close>

lemma digit_isDigit: "d < 10 \<Longrightarrow> isDigit (digit d)"
proof -
  assume "d < 10"
  then have "d \<in> {0, 1, 2, 3, 4, 5, 6, 7, 8, 9}" by auto
  then show ?thesis by (auto simp: digit_def isDigit_def)
qed

lemma dec_has_digit: "list_ex isDigit (dec n)"
proof (induction n rule: dec.induct)
  case (1 n)
  show ?case
  proof (cases "n < 10")
    case True
    then show ?thesis by (subst dec.simps) (simp add: digit_isDigit)
  next
    case False
    then show ?thesis using "1.IH" by (subst dec.simps) simp
  qed
qed

lemma number_is_postal_code: "locationType (LNumber n) = ''postal_code''"
  by (simp add: locationType_def numToString_def dec_has_digit)

text \<open>
  Claim C10.  The request names a location \<^verbatim>\<open>postal_code\<close> exactly when its string
  form holds a decimal digit somewhere, and \<^verbatim>\<open>city\<close> exactly when it holds none; the
  URL carries the location under that name.  So a city name with a digit in it, such as
  \<^verbatim>\<open>New York 10\<close>, is asked for as a postal code.
\<close>

theorem request_postal_code_iff_digit:
  "(locationType location = ''postal_code'') =
     (\<exists>c \<in> set (toString location). c \<in> set ''0123456789'')
   \<and> (locationType location = ''city'') =
     (\<not> (\<exists>c \<in> set (toString location). c \<in> set ''0123456789''))
   \<and> requestUrl key location =
       ''https://api.weatherbit.io/v2.0/current?'' @ locationType location @ ''=''
         @ toString location @ ''&key='' @ keyText key"
  by (simp add: locationType_def list_ex_iff isDigit_def requestUrl_def dataUrl_def queryParams_def)

theorem request_postal_code_iff_digit_witness:
  "locationType (LString ''New York 10'') = ''postal_code''
   \<and> locationType (LString ''New York'') = ''city''
   \<and> requestUrl (Some ''k'') (LString ''New York 10'')
       = ''https://api.weatherbit.io/v2.0/current?postal_code=New York 10&key=k''"
  using request_postal_code_iff_digit [of "LString ''New York 10''" "Some ''k''"]
    request_postal_code_iff_digit [of "LString ''New York''" "Some ''k''"]
  by simp

subsection \<open>Validation\<close>




subsection \<open>The API key comes first\<close>

text \<open>
  Claim C5.  With the API key undefined or empty, getWeatherData fails with the message
  \<^verbatim>\<open>please supply a valid api key\<close> whatever value is passed for the locations, an
  array or not, valid or not, and changes nothing.
\<close>

theorem missing_key_fails_first:
  "apiKey w = None \<or> apiKey w = Some [] \<Longrightarrow>
   getWeatherData e w locations = (Inl (Err Error ''please supply a valid api key''), w)"
  by (auto simp: getWeatherData_def rethrow_def)

theorem missing_key_fails_first_witness:
  "getWeatherData (exampleEnv 0 None) (newProcess\<lparr>apiKey := Some []\<rparr>) (JArr []) =
     (Inl (Err Error ''please supply a valid api key''), newProcess\<lparr>apiKey := Some []\<rparr>)
   \<and> getWeatherData (exampleEnv 0 None) (newProcess\<lparr>apiKey := None\<rparr>) (JStr ''Lagos'') =
     (Inl (Err Error ''please supply a valid api key''), newProcess\<lparr>apiKey := None\<rparr>)"
  using missing_key_fails_first
      [of "newProcess\<lparr>apiKey := Some []\<rparr>" "exampleEnv 0 None" "JArr []"]
    missing_key_fails_first
      [of "newProcess\<lparr>apiKey := None\<rparr>" "exampleEnv 0 None" "JStr ''Lagos''"]
  by simp

subsection \<open>The partition of the locations\<close>

text \<open>
  What the two filters compute.  \<open>fromCache\<close>, the locations with flag false, are
  those whose record is in the cache with an \<^verbatim>\<open>ob_time\<close> that is one hour old or
  older, or is no date at all; every other location is in \<open>fromApi\<close>.
\<close>

lemma fromCache_is_the_expired_records:
  "filterCachedLocations e c False locations =
     filter (\<lambda>l. case c of None \<Rightarrow> False
                 | Some m \<Rightarrow> (case m (toString l) of None \<Rightarrow> False
                     | Some r \<Rightarrow> (case setHoursPlus1 (date e (ob_time r)) of
                          None \<Rightarrow> True | Some t \<Rightarrow> t \<le> now e))) locations"
  unfolding filterCachedLocations_def locationCacheExpired_def
  by (rule filter_cong) (auto split: option.splits)

lemma fromApi_is_the_rest:
  "filterCachedLocations e c True locations =
     filter (\<lambda>l. l \<notin> set (filterCachedLocations e c False locations)) locations"
  unfolding filterCachedLocations_def by (rule filter_cong) auto

text \<open>
  Claim C1, evaluated on the code.  The cache holds a record for Lagos observed at
  2019-05-01 13:45.  One minute later the record is within its hour, and the location is
  in \<open>fromApi\<close> and not in \<open>fromCache\<close>: it is fetched again.  One hour and one
  millisecond after the observation the location is in \<open>fromCache\<close>, and so is a
  location whose record has an \<^verbatim>\<open>ob_time\<close> that is not a date.
\<close>

theorem fresh_record_is_fetched_again:
  "date (exampleEnv 1556718360000 None) (ob_time lagosRecord) = Some 1556718300000
   \<and> now (exampleEnv 1556718360000 None) < 1556718300000 + 3600000
   \<and> filterCachedLocations (exampleEnv 1556718360000 None) (Some [''Lagos'' \<mapsto> lagosRecord])
        True [LString ''Lagos''] = [LString ''Lagos'']
   \<and> filterCachedLocations (exampleEnv 1556718360000 None) (Some [''Lagos'' \<mapsto> lagosRecord])
        False [LString ''Lagos''] = []
   \<and> filterCachedLocations (exampleEnv 1556721900001 None) (Some [''Lagos'' \<mapsto> lagosRecord])
        False [LString ''Lagos''] = [LString ''Lagos'']
   \<and> filterCachedLocations (exampleEnv 1556718360000 None)
        (Some [''Lagos'' \<mapsto> lagosRecord\<lparr>ob_time := JStr ''soon''\<rparr>])
        False [LString ''Lagos''] = [LString ''Lagos'']"
  by (simp add: filterCachedLocations_def locationCacheExpired_def utcDate_def
        lagosRecord_def setHoursPlus1_def)

text \<open>
  Claim C2, evaluated on the code.  A first call for Lagos in a new process fetches the
  record and stores it.  A second call one minute later, two minutes after the observation,
  sends the request for Lagos a second time.
\<close>

theorem second_call_fetches_again:
  "getWeatherData (exampleEnv 1556718360000 None) newProcess (JArr [JStr ''Lagos'']) =
     (Inr [''Lagos'' \<mapsto> lagosRecord],
      \<lparr>apiKey = Some ''k'', cache = Some [''Lagos'' \<mapsto> lagosRecord],
       dataJson = Some [''Lagos'' \<mapsto> lagosRecord],
       sent = [''https://api.weatherbit.io/v2.0/current?city=Lagos&key=k'']\<rparr>)
   \<and> sent (snd (getWeatherData (exampleEnv 1556718420000 None)
        (snd (getWeatherData (exampleEnv 1556718360000 None) newProcess (JArr [JStr ''Lagos''])))
        (JArr [JStr ''Lagos'']))) =
      [''https://api.weatherbit.io/v2.0/current?city=Lagos&key=k'',
       ''https://api.weatherbit.io/v2.0/current?city=Lagos&key=k'']"
proof -
  let ?w1 = "\<lparr>apiKey = Some ''k'', cache = Some [''Lagos'' \<mapsto> lagosRecord],
       dataJson = Some [''Lagos'' \<mapsto> lagosRecord],
       sent = [''https://api.weatherbit.io/v2.0/current?city=Lagos&key=k'']\<rparr>"
  have f: "filterCachedLocations (exampleEnv 1556718420000 None)
        (Some [''Lagos'' \<mapsto> lagosRecord]) True [LString ''Lagos''] = [LString ''Lagos'']"
    by (simp add: filterCachedLocations_def locationCacheExpired_def utcDate_def
        lagosRecord_def setHoursPlus1_def)
  have g: "filterCachedLocations (exampleEnv 1556718420000 None)
        (Some [''Lagos'' \<mapsto> lagosRecord]) False [LString ''Lagos''] = []"
    by (simp add: filterCachedLocations_def locationCacheExpired_def utcDate_def
        lagosRecord_def setHoursPlus1_def)
  have "sent (snd (getWeatherData (exampleEnv 1556718420000 None) ?w1 (JArr [JStr ''Lagos'']))) =
      [''https://api.weatherbit.io/v2.0/current?city=Lagos&key=k'',
       ''https://api.weatherbit.io/v2.0/current?city=Lagos&key=k'']"
    by (simp add: getWeatherData_def f g List.map_filter_def
        getWeatherByLocationsFromApi_def axios_all_def example_requests example_urls
        normalizeApiData_def writeToCache_def caccheExists_def writeFile_def)
  then show ?thesis by (simp add: first_call)
qed

subsection \<open>Reading the cache\<close>



subsection \<open>Writing the cache\<close>

text \<open>
  Claim C3.  When the write of the file succeeds, the file holds, whatever it held before,
  the cache in memory united with the new records, a new record replacing the cached one of
  the same key; the cache in memory becomes the new records alone; and the new records are
  returned.
\<close>

theorem merge_and_persist:
  "disk e = None \<Longrightarrow>
   writeToCache e w data =
     (Inr data, w\<lparr>dataJson := Some (spread (cache w) ++ data), cache := Some data\<rparr>)
   \<and> (spread (cache w) ++ data) k =
       (case data k of Some r \<Rightarrow> Some r
        | None \<Rightarrow> (case cache w of None \<Rightarrow> None | Some m \<Rightarrow> m k))"
  by (cases "cache w")
     (simp_all add: writeToCache_def caccheExists_def writeFile_def map_add_def
        split: option.splits)

theorem merge_and_persist_witness:
  "writeToCache (exampleEnv 0 None)
     \<lparr>apiKey = Some ''k'', cache = Some [''Austin'' \<mapsto> austinRecord, ''Lagos'' \<mapsto> austinRecord],
      dataJson = Some [''Austin'' \<mapsto> austinRecord], sent = []\<rparr>
     [''Lagos'' \<mapsto> lagosRecord] =
   (Inr [''Lagos'' \<mapsto> lagosRecord],
    \<lparr>apiKey = Some ''k'', cache = Some [''Lagos'' \<mapsto> lagosRecord],
     dataJson = Some [''Austin'' \<mapsto> austinRecord, ''Lagos'' \<mapsto> lagosRecord], sent = []\<rparr>)"
proof -
  have d: "disk (exampleEnv 0 None) = None" by simp
  show ?thesis
    using merge_and_persist [OF d, of
        "\<lparr>apiKey = Some ''k'', cache = Some [''Austin'' \<mapsto> austinRecord, ''Lagos'' \<mapsto> austinRecord],
          dataJson = Some [''Austin'' \<mapsto> austinRecord], sent = []\<rparr>"
        "[''Lagos'' \<mapsto> lagosRecord]" "''Lagos''"]
    by simp
qed

text \<open>
  Claim C4.  When the write of the file fails, writing the cache fails with the error of
  the write and the cache in memory stays as it was; and a call of getWeatherData whose
  fetch succeeded then fails with the message of the write, the cache in memory being the
  one from before the call.
\<close>

theorem write_failure_keeps_cache:
  "disk e = Some m \<Longrightarrow>
   fst (writeToCache e w data) = Inl (Err Error m)
   \<and> cache (snd (writeToCache e w data)) = cache w
   \<and> (\<not> falsy (apiKey w) \<and> validateLocations locations = Inr True
        \<and> filterCachedLocations e (cache w) True (elements locations) = fromApi
        \<and> fromApi \<noteq> []
        \<and> axios_all (map (request e (apiKey w)) fromApi) = Inr weatherData \<longrightarrow>
      fst (getWeatherData e w locations) = Inl (Err Error m)
      \<and> cache (snd (getWeatherData e w locations)) = cache w)"
  by (auto simp: writeToCache_def caccheExists_def writeFile_def getWeatherData_def
        getWeatherByLocationsFromApi_def rethrow_def Let_def)

theorem write_failure_keeps_cache_witness:
  "fst (writeToCache (exampleEnv 0 (Some ''EACCES: permission denied'')) newProcess
       [''Lagos'' \<mapsto> lagosRecord]) = Inl (Err Error ''EACCES: permission denied'')
   \<and> cache (snd (writeToCache (exampleEnv 0 (Some ''EACCES: permission denied'')) newProcess
       [''Lagos'' \<mapsto> lagosRecord])) = None
   \<and> fst (getWeatherData (exampleEnv 0 (Some ''EACCES: permission denied'')) newProcess
        (JArr [JStr ''Lagos''])) = Inl (Err Error ''EACCES: permission denied'')
   \<and> cache (snd (getWeatherData (exampleEnv 0 (Some ''EACCES: permission denied'')) newProcess
        (JArr [JStr ''Lagos'']))) = None"
proof -
  let ?e = "exampleEnv 0 (Some ''EACCES: permission denied'')"
  have d: "disk ?e = Some ''EACCES: permission denied''" by simp
  have k: "\<not> falsy (apiKey newProcess)" by (simp add: newProcess_def)
  have v: "validateLocations (JArr [JStr ''Lagos'']) = Inr True" by simp
  have f: "filterCachedLocations ?e (cache newProcess) True (elements (JArr [JStr ''Lagos'']))
             = [LString ''Lagos'']"
    by (simp add: newProcess_def nothing_cached List.map_filter_def)
  have a: "axios_all (map (request ?e (apiKey newProcess)) [LString ''Lagos''])
             = Inr [[''Lagos'' \<mapsto> lagosRecord]]"
    by (simp add: axios_all_def newProcess_def example_requests)
  have c: "cache newProcess = None" by (simp add: newProcess_def)
  show ?thesis
    using write_failure_keeps_cache [OF d, of newProcess "[''Lagos'' \<mapsto> lagosRecord]"
        "JArr [JStr ''Lagos'']" "[LString ''Lagos'']" "[[''Lagos'' \<mapsto> lagosRecord]]"] k v f a c
    by simp
qed

subsection \<open>A fetch that fails\<close>











subsection \<open>A number and its digits are one key\<close>













end
